theory Spec2Isabelle
  imports Main
begin

section \<open>Values, exceptions and strings\<close>

text \<open>
  The development embeds \<^verbatim>\<open>support_bot.py\<close>: the localization manager, the data
  manager, and the handlers of \<^verbatim>\<open>SupportBot\<close> for the ticket command, the text
  replies, the confirmation buttons and the cancel command.

  A Python \<^verbatim>\<open>str\<close> is a \<open>string\<close>, one \<open>char\<close> for one code point (code points
  below 256; the code inspects only braces, dots and white space). Exceptions are
  values: a computation that may raise returns \<open>exn + 'a\<close>, with \<open>Inl\<close> for the
  exception raised. Every exception below is an \<^verbatim>\<open>Exception\<close> of Python, so a
  handler \<^verbatim>\<open>except Exception\<close> catches each of them.
\<close>

datatype exn =
    KeyError
  | TypeError
  | AttributeError
  | IndexError
  | ValueError
  | FileNotFoundError
  | JSONDecodeError
  | OSError
  | TelegramError
  | Timeout
  | ConnectionError
  | OtherException string

text \<open>
  What \<^verbatim>\<open>json.load\<close> returns. A JSON object is the list of its items, read with
  \<open>map_of\<close>; a number keeps its literal, which the code never inspects.
\<close>

datatype json =
    JNull
  | JBool bool
  | JNum string
  | JStr string
  | JArr "json list"
  | JObj "(string \<times> json) list"

text \<open>\<^verbatim>\<open>sep.join(keys)\<close>.\<close>

fun join :: "string \<Rightarrow> string list \<Rightarrow> string" where
  "join sep [] = []"
| "join sep [k] = k"
| "join sep (k # k' # ks) = k @ sep @ join sep (k' # ks)"

text \<open>
  \<^verbatim>\<open>str.strip()\<close> removes leading and trailing white space; below code point 256
  the white space of Python is the set tested by \<open>isspace\<close>.
\<close>

definition isspace :: "char \<Rightarrow> bool" where
  "isspace c = ((of_char c :: nat) \<in> {9, 10, 11, 12, 13, 28, 29, 30, 31, 32, 133, 160})"

definition strip :: "string \<Rightarrow> string" where
  "strip s = rev (dropWhile isspace (rev (dropWhile isspace s)))"

text \<open>\<^verbatim>\<open>str(n)\<close> for an integer: its decimal numeral.\<close>

definition digit_char :: "nat \<Rightarrow> char" where
  "digit_char d = ''0123456789'' ! d"

fun str_nat :: "nat \<Rightarrow> string" where
  "str_nat n = (if n < 10 then [digit_char n] else str_nat (n div 10) @ [digit_char (n mod 10)])"

definition str_int :: "int \<Rightarrow> string" where
  "str_int i = (if i < 0 then CHR ''-'' # str_nat (nat (- i)) else str_nat (nat i))"

section \<open>\<^verbatim>\<open>str.format(**kwargs)\<close>\<close>

text \<open>
  Keyword arguments are the items of the \<^verbatim>\<open>kwargs\<close> dictionary, read with \<open>map_of\<close>;
  every value the bot passes is a \<^verbatim>\<open>str\<close>.

  \<open>str_format\<close> follows the scanner of the format mini-language: literal text up to a
  brace, \<^verbatim>\<open>{{\<close> and \<^verbatim>\<open>}}\<close> for one brace, a single brace that opens no field is a
  \<open>ValueError\<close>, and a replacement field \<^verbatim>\<open>{name}\<close> is looked up among the keyword
  arguments, a \<open>KeyError\<close> when absent. A field is \<^emph>\<open>plain\<close> when its text up to the
  closing brace is a non-empty name that is not a number and holds none of
  \<^verbatim>\<open>{ [ ] : ! .\<close>; the value of a plain field is a \<^verbatim>\<open>str\<close> and is inserted as it is.
  Every other field (positional, attribute or index access, conversion, format
  specification) is left to the parameter \<open>lib\<close>, the library's treatment of it:
  from the text after the opening brace it gives the exception raised, or the
  replacement together with the number of characters before the closing brace.
\<close>

type_synonym kwargs = "(string \<times> string) list"

type_synonym format_lib = "string \<Rightarrow> kwargs \<Rightarrow> exn + (string \<times> nat)"

definition name_char :: "char \<Rightarrow> bool" where
  "name_char c = (c \<notin> set ''{}[]:!.'')"

definition is_digit :: "char \<Rightarrow> bool" where
  "is_digit c = (c \<in> set ''0123456789'')"

definition plain_field :: "string \<Rightarrow> bool" where
  "plain_field cs =
     (let name = takeWhile name_char cs in
      name \<noteq> [] \<and> \<not> list_all is_digit name \<and>
      (case dropWhile name_char cs of [] \<Rightarrow> False | d # _ \<Rightarrow> d = CHR ''}''))"

definition field :: "format_lib \<Rightarrow> kwargs \<Rightarrow> string \<Rightarrow> exn + (string \<times> nat)" where
  "field lib kw cs =
     (if plain_field cs then
        (case map_of kw (takeWhile name_char cs) of
           None \<Rightarrow> Inl KeyError
         | Some v \<Rightarrow> Inr (v, length (takeWhile name_char cs)))
      else lib cs kw)"

function str_format :: "format_lib \<Rightarrow> kwargs \<Rightarrow> string \<Rightarrow> exn + string" where
  "str_format lib kw [] = Inr []"
| "str_format lib kw (c # cs) =
     (if c = CHR ''}'' then
        (case cs of
           [] \<Rightarrow> Inl ValueError
         | d # ds \<Rightarrow>
             if d = CHR ''}'' then map_sum id ((#) c) (str_format lib kw ds)
             else Inl ValueError)
      else if c = CHR ''{'' then
        (case cs of
           [] \<Rightarrow> Inl ValueError
         | d # ds \<Rightarrow>
             if d = CHR ''{'' then map_sum id ((#) c) (str_format lib kw ds)
             else
               (case field lib kw cs of
                  Inl e \<Rightarrow> Inl e
                | Inr (v, n) \<Rightarrow> map_sum id ((@) v) (str_format lib kw (drop (Suc n) cs))))
      else map_sum id ((#) c) (str_format lib kw cs))"
  by pat_completeness auto
termination
  by (relation "measure (\<lambda>(lib, kw, s). length s)") auto

section \<open>LocalizationManager\<close>

type_synonym locales = "string \<rightharpoonup> json"

text \<open>
  \<^verbatim>\<open>load_locales\<close>: the file system is the function \<open>fs\<close>, which for a path gives
  the value \<^verbatim>\<open>json.load\<close> returns or the exception that \<^verbatim>\<open>open\<close> or \<^verbatim>\<open>json.load\<close>
  raises. Only \<open>FileNotFoundError\<close> is handled; any other exception leaves the
  loop and the constructor.
\<close>

definition locale_file :: "string \<Rightarrow> string" where
  "locale_file lang = ''locales/'' @ lang @ ''.json''"

fun load_langs :: "(string \<Rightarrow> exn + json) \<Rightarrow> string list \<Rightarrow> locales \<Rightarrow> exn + locales" where
  "load_langs fs [] locs = Inr locs"
| "load_langs fs (lang # langs) locs =
     (case fs (locale_file lang) of
        Inr j \<Rightarrow> load_langs fs langs (locs(lang \<mapsto> j))
      | Inl e \<Rightarrow>
          if e = FileNotFoundError then load_langs fs langs (locs(lang \<mapsto> JObj []))
          else Inl e)"

definition load_locales :: "(string \<Rightarrow> exn + json) \<Rightarrow> exn + locales" where
  "load_locales fs = load_langs fs [''RU'', ''UZ''] Map.empty"

text \<open>
  \<^verbatim>\<open>get(lang, *keys, **kwargs)\<close>. \<open>subscript\<close> is \<^verbatim>\<open>text[key]\<close> for a \<^verbatim>\<open>str\<close> key:
  a dictionary raises \<open>KeyError\<close> on a missing key, every other value raises
  \<open>TypeError\<close>. \<open>get_try\<close> is the body of the \<^verbatim>\<open>try\<close>; \<open>get\<close> adds the handler
  of \<^verbatim>\<open>(KeyError, TypeError)\<close>.

  The keyword arguments are bound when the function is called, before its \<^verbatim>\<open>try\<close>
  is entered: a keyword named as one of the positional parameters (\<^verbatim>\<open>self\<close> and
  \<^verbatim>\<open>lang\<close> for \<^verbatim>\<open>get\<close>) gives that parameter a second value, and the call raises a
  \<open>TypeError\<close> that no handler of the function sees.
\<close>

definition clashes :: "string list \<Rightarrow> kwargs \<Rightarrow> bool" where
  "clashes names kw = (\<exists>n\<in>set names. n \<in> fst ` set kw)"

definition subscript :: "json \<Rightarrow> string \<Rightarrow> exn + json" where
  "subscript v key =
     (case v of
        JObj items \<Rightarrow> (case map_of items key of None \<Rightarrow> Inl KeyError | Some x \<Rightarrow> Inr x)
      | _ \<Rightarrow> Inl TypeError)"

fun walk :: "json \<Rightarrow> string list \<Rightarrow> exn + json" where
  "walk txt [] = Inr txt"
| "walk txt (key # keys) =
     (case subscript txt key of Inl e \<Rightarrow> Inl e | Inr t \<Rightarrow> walk t keys)"

definition py_format :: "format_lib \<Rightarrow> json \<Rightarrow> kwargs \<Rightarrow> exn + json" where
  "py_format lib txt kw =
     (case txt of
        JStr s \<Rightarrow> map_sum id JStr (str_format lib kw s)
      | _ \<Rightarrow> Inl AttributeError)"

definition missing_translation :: "string list \<Rightarrow> string" where
  "missing_translation keys = ''[Missing translation: '' @ join ''.'' keys @ '']''"

definition get_try :: "format_lib \<Rightarrow> locales \<Rightarrow> string \<Rightarrow> string list \<Rightarrow> kwargs \<Rightarrow> exn + json" where
  "get_try lib locs lang keys kw =
     (case locs ''RU'' of
        None \<Rightarrow> Inl KeyError
      | Some ru \<Rightarrow>
          (case walk (case locs lang of None \<Rightarrow> ru | Some b \<Rightarrow> b) keys of
             Inl e \<Rightarrow> Inl e
           | Inr txt \<Rightarrow> if kw \<noteq> [] then py_format lib txt kw else Inr txt))"

definition get :: "format_lib \<Rightarrow> locales \<Rightarrow> string \<Rightarrow> string list \<Rightarrow> kwargs \<Rightarrow> exn + json" where
  "get lib locs lang keys kw =
     (if clashes [''self'', ''lang''] kw then Inl TypeError
      else
        (case get_try lib locs lang keys kw of
           Inl e \<Rightarrow>
             if e = KeyError \<or> e = TypeError then Inr (JStr (missing_translation keys))
             else Inl e
         | Inr v \<Rightarrow> Inr v))"

section \<open>The bot, its environment and its actions\<close>

text \<open>
  The state mirrors the objects of the program: \<^verbatim>\<open>DataManager\<close> holds the groups and
  the user settings (dictionaries keyed by \<^verbatim>\<open>str(id)\<close>), \<^verbatim>\<open>SupportBot\<close> holds
  \<^verbatim>\<open>user_data\<close> (the ticket drafts, keyed by the user id), the locales of its
  \<^verbatim>\<open>LocalizationManager\<close> and the data manager. A draft is the dictionary stored in
  \<^verbatim>\<open>user_data\<close>: the keys \<^verbatim>\<open>branch\<close> and \<^verbatim>\<open>description\<close> are absent until a
  step sets them.
\<close>

record group_rec =
  ident :: int
  title :: string
  added_at :: string
  last_activity :: string

record draft =
  group_name :: string
  group_id :: int
  user_name :: string
  branch :: "string option"
  description :: "string option"

record data_manager =
  groups :: "string \<rightharpoonup> group_rec"
  user_settings :: "string \<rightharpoonup> (string \<rightharpoonup> string)"

record support_bot =
  user_data :: "int \<rightharpoonup> draft"
  localization :: locales
  data_manager :: data_manager

text \<open>What a handler reads from the \<^verbatim>\<open>Update\<close> it is called with.\<close>

record update =
  effective_user_id :: int
  effective_user_full_name :: string
  chat_type :: string
  chat_id :: int
  chat_title :: string
  message_text :: string
  query_data :: string

text \<open>The states a conversation handler returns.\<close>

datatype conv = BRANCH | DESCRIPTION | END

text \<open>
  The calls that leave the program. A message carries what was passed as its text:
  a value returned by \<open>get\<close> as it is (\<open>Direct\<close>), or an f-string, the concatenation
  of \<^verbatim>\<open>str\<close> of its parts (\<open>FString\<close>); an inline keyboard is its rows of buttons,
  each a text and its callback data. The request to Pyrus keeps the two values
  interpolated into its fixed summary line.
\<close>

datatype content = Direct json | FString "json list"

type_synonym markup = "(json \<times> string) list list"

record request =
  url :: string
  authorization :: string
  form_id :: string
  summary_user :: string
  summary_group :: string
  field_values :: "(nat \<times> string) list"
  timeout :: nat

datatype effect =
    Reply content "markup option"
  | Edit content "markup option"
  | Answer
  | SaveGroups "string \<rightharpoonup> group_rec"
  | SaveUserSettings "string \<rightharpoonup> (string \<rightharpoonup> string)"
  | Post request

text \<open>
  The environment is everything outside the source file: whether the chat transport
  or the file system carries out a call (when it does not, the call raises), what
  \<^verbatim>\<open>requests.post\<close> returns (a status code and a body) or raises, the clock, the
  library's treatment of compound format fields, and the two Pyrus constants of the
  configuration.
\<close>

record env =
  accepts :: "effect \<Rightarrow> bool"
  post :: "request \<Rightarrow> exn + (int \<times> string)"
  now :: "nat \<Rightarrow> string"
  format_lib :: format_lib
  pyrus_api_token :: string
  pyrus_form_id :: string

text \<open>
  An action runs on the bot and gives the value returned or the exception raised,
  the calls carried out, in order, and the bot afterwards.
\<close>

type_synonym 'a action = "support_bot \<Rightarrow> (exn + 'a) \<times> effect list \<times> support_bot"

definition return :: "'a \<Rightarrow> 'a action" where
  "return x = (\<lambda>self. (Inr x, [], self))"

definition lift :: "exn + 'a \<Rightarrow> 'a action" where
  "lift r = (\<lambda>self. (r, [], self))"

definition bind :: "'a action \<Rightarrow> ('a \<Rightarrow> 'b action) \<Rightarrow> 'b action" where
  "bind m f =
     (\<lambda>self. case m self of
        (Inl e, tr, self') \<Rightarrow> (Inl e, tr, self')
      | (Inr x, tr, self') \<Rightarrow> (case f x self' of (r, tr', self'') \<Rightarrow> (r, tr @ tr', self'')))"

definition try_except :: "'a action \<Rightarrow> (exn \<Rightarrow> 'a action) \<Rightarrow> 'a action" where
  "try_except m h =
     (\<lambda>self. case m self of
        (Inl e, tr, self') \<Rightarrow> (case h e self' of (r, tr', self'') \<Rightarrow> (r, tr @ tr', self''))
      | (Inr x, tr, self') \<Rightarrow> (Inr x, tr, self'))"

definition inspect :: "(support_bot \<Rightarrow> 'a) \<Rightarrow> 'a action" where
  "inspect f = (\<lambda>self. (Inr (f self), [], self))"

definition modify :: "(support_bot \<Rightarrow> support_bot) \<Rightarrow> unit action" where
  "modify f = (\<lambda>self. (Inr (), [], f self))"

fun fault :: "effect \<Rightarrow> exn" where
  "fault (SaveGroups g) = OSError"
| "fault (SaveUserSettings s) = OSError"
| "fault eff = TelegramError"

definition perform :: "env \<Rightarrow> effect \<Rightarrow> unit action" where
  "perform env eff =
     (\<lambda>self. if accepts env eff then (Inr (), [eff], self) else (Inl (fault eff), [], self))"

definition reply_text :: "env \<Rightarrow> json \<Rightarrow> markup option \<Rightarrow> unit action" where
  "reply_text env t mk = perform env (Reply (Direct t) mk)"

definition edit_message_text :: "env \<Rightarrow> json \<Rightarrow> unit action" where
  "edit_message_text env t = perform env (Edit (Direct t) None)"

definition requests_post :: "env \<Rightarrow> request \<Rightarrow> (int \<times> string) action" where
  "requests_post env req = (\<lambda>self. (post env req, [Post req], self))"

section \<open>DataManager\<close>

definition save_groups :: "env \<Rightarrow> unit action" where
  "save_groups env = (\<lambda>self. perform env (SaveGroups (groups (data_manager self))) self)"

definition save_user_settings :: "env \<Rightarrow> unit action" where
  "save_user_settings env =
     (\<lambda>self. perform env (SaveUserSettings (user_settings (data_manager self))) self)"

text \<open>
  \<^verbatim>\<open>add_group\<close>: a new group takes two readings of the clock, a known one keeps its
  \<^verbatim>\<open>added_at\<close>; the groups are saved in both cases.
\<close>

definition add_group_mem :: "env \<Rightarrow> int \<Rightarrow> string \<Rightarrow> data_manager \<Rightarrow> data_manager" where
  "add_group_mem env cid ctitle dm =
     (case groups dm (str_int cid) of
        None \<Rightarrow>
          dm\<lparr>groups := (groups dm)(str_int cid \<mapsto>
            \<lparr>ident = cid, title = ctitle, added_at = now env 0, last_activity = now env 1\<rparr>)\<rparr>
      | Some g \<Rightarrow>
          dm\<lparr>groups := (groups dm)(str_int cid \<mapsto>
            g\<lparr>title := ctitle, last_activity := now env 0\<rparr>)\<rparr>)"

definition add_group :: "env \<Rightarrow> int \<Rightarrow> string \<Rightarrow> unit action" where
  "add_group env cid ctitle =
     bind (modify (\<lambda>self. self\<lparr>data_manager := add_group_mem env cid ctitle (data_manager self)\<rparr>))
       (\<lambda>_. save_groups env)"

definition get_user_language :: "data_manager \<Rightarrow> int \<Rightarrow> string" where
  "get_user_language dm uid =
     (case user_settings dm (str_int uid) of
        None \<Rightarrow> ''RU''
      | Some s \<Rightarrow> (case s ''language'' of None \<Rightarrow> ''RU'' | Some l \<Rightarrow> l))"

definition set_language_mem :: "int \<Rightarrow> string \<Rightarrow> data_manager \<Rightarrow> data_manager" where
  "set_language_mem uid language dm =
     (let settings = (case user_settings dm (str_int uid) of None \<Rightarrow> Map.empty | Some s \<Rightarrow> s) in
      dm\<lparr>user_settings := (user_settings dm)(str_int uid \<mapsto> settings(''language'' \<mapsto> language))\<rparr>)"

definition set_user_language :: "env \<Rightarrow> int \<Rightarrow> string \<Rightarrow> unit action" where
  "set_user_language env uid language =
     bind (modify (\<lambda>self. self\<lparr>data_manager := set_language_mem uid language (data_manager self)\<rparr>))
       (\<lambda>_. save_user_settings env)"

section \<open>SupportBot\<close>

text \<open>
  \<^verbatim>\<open>get_text(user_id, *keys, **kwargs)\<close>: its own positional parameters are
  \<^verbatim>\<open>self\<close> and \<^verbatim>\<open>user_id\<close>; the keyword arguments are passed on to \<open>get\<close>.
\<close>

definition get_text :: "env \<Rightarrow> int \<Rightarrow> string list \<Rightarrow> kwargs \<Rightarrow> json action" where
  "get_text env uid keys kw =
     (\<lambda>self.
        if clashes [''self'', ''user_id''] kw then (Inl TypeError, [], self)
        else lift (get (format_lib env) (localization self)
                    (get_user_language (data_manager self) uid) keys kw) self)"

text \<open>\<^verbatim>\<open>del self.user_data[user_id]\<close> raises \<open>KeyError\<close> when the key is absent.\<close>

definition del_user_data :: "int \<Rightarrow> unit action" where
  "del_user_data uid =
     (\<lambda>self. if user_data self uid = None then (Inl KeyError, [], self)
            else (Inr (), [], self\<lparr>user_data := (user_data self)(uid := None)\<rparr>))"

text \<open>
  \<^verbatim>\<open>sos_command\<close>: outside a group the command answers and ends; in a group it
  records the group, stores a new draft under the user and asks for the branch.
\<close>

definition new_draft :: "update \<Rightarrow> draft" where
  "new_draft upd =
     \<lparr>group_name = chat_title upd, group_id = chat_id upd,
      user_name = effective_user_full_name upd, branch = None, description = None\<rparr>"

definition sos_command :: "env \<Rightarrow> update \<Rightarrow> conv action" where
  "sos_command env upd =
     (let uid = effective_user_id upd in
      if chat_type upd \<notin> set [''group'', ''supergroup''] then
        bind (get_text env uid [''errors'', ''group_only''] []) (\<lambda>t.
        bind (reply_text env t None) (\<lambda>_.
        return END))
      else
        bind (add_group env (chat_id upd) (chat_title upd)) (\<lambda>_.
        bind (modify (\<lambda>self. self\<lparr>user_data := (user_data self)(uid \<mapsto> new_draft upd)\<rparr>)) (\<lambda>_.
        bind (get_text env uid [''ticket'', ''no_branch''] []) (\<lambda>nb.
        bind (get_text env uid [''ticket'', ''enter_branch_name''] []) (\<lambda>t.
        bind (reply_text env t (Some [[(nb, ''no_branch'')]])) (\<lambda>_.
        return BRANCH))))))"

definition receive_branch :: "env \<Rightarrow> update \<Rightarrow> conv action" where
  "receive_branch env upd =
     (let uid = effective_user_id upd; b = strip (message_text upd) in
      if b = [] then
        bind (get_text env uid [''errors'', ''empty_branch''] []) (\<lambda>t.
        bind (reply_text env t None) (\<lambda>_.
        return BRANCH))
      else
        bind (inspect (\<lambda>self. user_data self uid)) (\<lambda>entry.
        case entry of
          Some d \<Rightarrow>
            bind (modify (\<lambda>self. self\<lparr>user_data := (user_data self)(uid \<mapsto> d\<lparr>branch := Some b\<rparr>)\<rparr>)) (\<lambda>_.
            bind (get_text env uid [''ticket'', ''describe_problem''] []) (\<lambda>t.
            bind (reply_text env t None) (\<lambda>_.
            return DESCRIPTION)))
        | None \<Rightarrow>
            bind (get_text env uid [''errors'', ''general_error''] []) (\<lambda>t.
            bind (reply_text env t None) (\<lambda>_.
            return END))))"

text \<open>
  \<^verbatim>\<open>receive_description\<close>: after the description is stored, the keyword arguments
  of the summary read \<^verbatim>\<open>data['branch']\<close>, a \<open>KeyError\<close> when the draft has none.
\<close>

definition receive_description :: "env \<Rightarrow> update \<Rightarrow> conv action" where
  "receive_description env upd =
     (let uid = effective_user_id upd; descr = strip (message_text upd) in
      if descr = [] then
        bind (get_text env uid [''errors'', ''empty_description''] []) (\<lambda>t.
        bind (reply_text env t None) (\<lambda>_.
        return DESCRIPTION))
      else
        bind (inspect (\<lambda>self. user_data self uid)) (\<lambda>entry.
        case entry of
          None \<Rightarrow>
            bind (get_text env uid [''errors'', ''general_error''] []) (\<lambda>t.
            bind (reply_text env t None) (\<lambda>_.
            return END))
        | Some d \<Rightarrow>
            bind (modify (\<lambda>self. self\<lparr>user_data := (user_data self)(uid \<mapsto> d\<lparr>description := Some descr\<rparr>)\<rparr>)) (\<lambda>_.
            bind (lift (case branch d of None \<Rightarrow> Inl KeyError | Some b \<Rightarrow> Inr b)) (\<lambda>b.
            bind (get_text env uid [''ticket'', ''confirm_details'']
                    [(''user_name'', user_name d), (''group_name'', group_name d),
                     (''branch'', b), (''description'', descr)]) (\<lambda>summary.
            bind (get_text env uid [''ticket'', ''btn_confirm''] []) (\<lambda>yes.
            bind (get_text env uid [''ticket'', ''btn_cancel''] []) (\<lambda>no.
            bind (get_text env uid [''ticket'', ''confirm_title''] []) (\<lambda>heading.
            bind (perform env
                    (Reply (FString [heading, JStr [CHR 0x0A, CHR 0x0A], summary])
                       (Some [[(yes, ''confirm_ticket'')], [(no, ''cancel_ticket'')]]))) (\<lambda>_.
            return END)))))))))"

text \<open>
  \<^verbatim>\<open>send_to_pyrus\<close>: building the payload reads \<^verbatim>\<open>data['branch']\<close> and
  \<^verbatim>\<open>data['description']\<close>; the request is posted with a timeout of ten seconds; the
  result is whether the status code is 200. Every exception raised inside is caught
  and gives \<^verbatim>\<open>False\<close>.
\<close>

definition build_request :: "env \<Rightarrow> draft \<Rightarrow> exn + request" where
  "build_request env d =
     (case branch d of
        None \<Rightarrow> Inl KeyError
      | Some b \<Rightarrow>
          (case description d of
             None \<Rightarrow> Inl KeyError
           | Some descr \<Rightarrow>
               Inr \<lparr>url = ''https://api.pyrus.com/v4/tasks'',
                    authorization = ''Bearer '' @ pyrus_api_token env,
                    form_id = pyrus_form_id env,
                    summary_user = user_name d,
                    summary_group = group_name d,
                    field_values = [(1, group_name d), (2, b), (3, descr)],
                    timeout = 10\<rparr>))"

definition send_to_pyrus :: "env \<Rightarrow> draft \<Rightarrow> bool action" where
  "send_to_pyrus env d =
     try_except
       (bind (lift (build_request env d)) (\<lambda>req.
        bind (requests_post env req) (\<lambda>response.
        return (fst response = 200))))
       (\<lambda>e. return False)"

text \<open>
  \<^verbatim>\<open>confirm_ticket_callback\<close> serves the two buttons of the confirmation message.
  The query is answered before the \<^verbatim>\<open>try\<close>; the handler of the \<^verbatim>\<open>try\<close> reports the
  general error.
\<close>

definition confirm_ticket_callback :: "env \<Rightarrow> update \<Rightarrow> unit action" where
  "confirm_ticket_callback env upd =
     (let uid = effective_user_id upd in
      bind (perform env Answer) (\<lambda>_.
      try_except
        (if query_data upd = ''confirm_ticket'' then
           bind (inspect (\<lambda>self. user_data self uid)) (\<lambda>entry.
           case entry of
             Some d \<Rightarrow>
               bind (send_to_pyrus env d) (\<lambda>success.
               bind (if success then
                       bind (get_text env uid [''ticket'', ''created''] []) (edit_message_text env)
                     else
                       bind (get_text env uid [''errors'', ''pyrus_error''] []) (edit_message_text env)) (\<lambda>_.
               del_user_data uid))
           | None \<Rightarrow>
               bind (get_text env uid [''errors'', ''general_error''] []) (edit_message_text env))
         else if query_data upd = ''cancel_ticket'' then
           bind (inspect (\<lambda>self. user_data self uid)) (\<lambda>entry.
           bind (if entry \<noteq> None then del_user_data uid else return ()) (\<lambda>_.
           bind (get_text env uid [''ticket'', ''cancelled''] []) (edit_message_text env)))
         else return ())
        (\<lambda>e. bind (get_text env uid [''errors'', ''general_error''] []) (edit_message_text env))))"

definition cancel :: "env \<Rightarrow> update \<Rightarrow> conv action" where
  "cancel env upd =
     (let uid = effective_user_id upd in
      bind (inspect (\<lambda>self. user_data self uid)) (\<lambda>entry.
      bind (if entry \<noteq> None then del_user_data uid else return ()) (\<lambda>_.
      bind (get_text env uid [''ticket'', ''cancelled''] []) (\<lambda>t.
      bind (reply_text env t None) (\<lambda>_.
      return END)))))"

definition state_of :: "(exn + 'a) \<times> effect list \<times> support_bot \<Rightarrow> support_bot" where
  "state_of r = snd (snd r)"

section \<open>Templates with plain placeholders\<close>

text \<open>
  To speak about the placeholders of a template, a template is written from its
  pieces: literal text, with each brace doubled as the format language asks, and
  fields \<^verbatim>\<open>{name}\<close>. \<open>substituted\<close> is the substitution the specification
  describes: a field with a matching parameter is replaced by its value, a field
  without one stays as it is written.
\<close>

datatype piece = Lit string | Field string

definition escape :: "string \<Rightarrow> string" where
  "escape s = concat (map (\<lambda>c. if c = CHR ''{'' \<or> c = CHR ''}'' then [c, c] else [c]) s)"

fun template_text :: "piece list \<Rightarrow> string" where
  "template_text [] = []"
| "template_text (Lit s # ps) = escape s @ template_text ps"
| "template_text (Field n # ps) = CHR ''{'' # n @ CHR ''}'' # template_text ps"

fun field_names :: "piece list \<Rightarrow> string list" where
  "field_names [] = []"
| "field_names (Lit s # ps) = field_names ps"
| "field_names (Field n # ps) = n # field_names ps"

definition plain_name :: "string \<Rightarrow> bool" where
  "plain_name n = (n \<noteq> [] \<and> list_all name_char n \<and> \<not> list_all is_digit n)"

fun substituted :: "kwargs \<Rightarrow> piece list \<Rightarrow> string" where
  "substituted kw [] = []"
| "substituted kw (Lit s # ps) = s @ substituted kw ps"
| "substituted kw (Field n # ps) =
     (case map_of kw n of None \<Rightarrow> CHR ''{'' # n @ ''}'' | Some v \<Rightarrow> v) @ substituted kw ps"

section \<open>A concrete bot\<close>

text \<open>
  The scenario of the specification: user 42 (Ivan) in the group Branch-12 (id 555),
  with a Russian bundle and an empty Uzbek one, a transport and a file system that
  carry out every call, and a backend that answers 200.
\<close>

definition no_lib :: format_lib where
  "no_lib cs kw = Inl ValueError"

definition ru_bundle :: json where
  "ru_bundle =
     JObj [(''ticket'', JObj [(''created'', JStr ''Ticket created''),
                              (''cancelled'', JStr ''Cancelled''),
                              (''greeting'', JStr ''{a} {b}'')]),
           (''errors'', JObj [(''pyrus_error'', JStr ''Sending failed''),
                              (''empty_branch'', JStr ''Branch is empty''),
                              (''empty_description'', JStr ''Description is empty'')])]"

definition demo_locales :: locales where
  "demo_locales = [''RU'' \<mapsto> ru_bundle, ''UZ'' \<mapsto> JObj []]"

definition always :: "effect \<Rightarrow> bool" where
  "always eff = True"

definition answers :: "int \<Rightarrow> request \<Rightarrow> exn + (int \<times> string)" where
  "answers status req = Inr (status, ''body'')"

definition times_out :: "request \<Rightarrow> exn + (int \<times> string)" where
  "times_out req = Inl Timeout"

definition midnight :: "nat \<Rightarrow> string" where
  "midnight k = ''2024-01-01T00:00:00''"

definition demo_env :: env where
  "demo_env =
     \<lparr>accepts = always, post = answers 200, now = midnight, format_lib = no_lib,
      pyrus_api_token = ''token'', pyrus_form_id = ''form''\<rparr>"

definition demo_draft :: draft where
  "demo_draft =
     \<lparr>group_name = ''Branch-12'', group_id = 555, user_name = ''Ivan'',
      branch = Some ''Central'', description = Some ''Printer jammed''\<rparr>"

definition demo_bot :: support_bot where
  "demo_bot =
     \<lparr>user_data = Map.empty, localization = demo_locales,
      data_manager = \<lparr>groups = Map.empty, user_settings = Map.empty\<rparr>\<rparr>"

definition demo_update :: update where
  "demo_update =
     \<lparr>effective_user_id = 42, effective_user_full_name = ''Ivan'', chat_type = ''group'',
      chat_id = 555, chat_title = ''Branch-12'', message_text = ''   '',
      query_data = ''confirm_ticket''\<rparr>"

definition broken_ru :: "string \<Rightarrow> exn + json" where
  "broken_ru path = (if path = ''locales/RU.json'' then Inl JSONDecodeError else Inr (JObj []))"

definition only_ru :: "string \<Rightarrow> exn + json" where
  "only_ru path = (if path = ''locales/RU.json'' then Inr ru_bundle else Inl FileNotFoundError)"

section \<open>Auxiliary facts\<close>

text \<open>Without keyword arguments \<open>get\<close> raises nothing: the walk fails only with the two handled exceptions.\<close>

lemma walk_error: "walk t keys = Inl e \<Longrightarrow> e = KeyError \<or> e = TypeError"
  by (induction keys arbitrary: t)
     (auto simp: subscript_def split: sum.splits json.splits option.splits)

lemma walk_append:
  "walk t (ks @ ks') = (case walk t ks of Inl e \<Rightarrow> Inl e | Inr v \<Rightarrow> walk v ks')"
  by (induction ks arbitrary: t) (auto split: sum.splits)

lemma get_try_nokw_error:
  "get_try lib locs lang keys [] = Inl e \<Longrightarrow> e = KeyError \<or> e = TypeError"
  by (auto simp: get_try_def split: option.splits sum.splits dest: walk_error)

lemma get_nokw_total: "\<exists>v. get lib locs lang keys [] = Inr v"
  by (cases "get_try lib locs lang keys []")
     (auto simp: get_def clashes_def dest: get_try_nokw_error)

lemma get_text_nokw: "\<exists>t. get_text env uid keys [] self = (Inr t, [], self)"
  using get_nokw_total [of "format_lib env" "localization self"
      "get_user_language (data_manager self) uid" keys]
  by (auto simp: get_text_def lift_def clashes_def)

lemma get_text_nokw_eq:
  "get_text env uid keys [] self =
     (Inr (projr (get (format_lib env) (localization self)
        (get_user_language (data_manager self) uid) keys [])), [], self)"
  using get_nokw_total [of "format_lib env" "localization self"
      "get_user_language (data_manager self) uid" keys]
  by (auto simp: get_text_def lift_def clashes_def)

lemma get_text_user_data:
  "get_text env uid keys kw (self\<lparr>user_data := ud\<rparr>) =
     (case get_text env uid keys kw self of (r, tr, s) \<Rightarrow> (r, tr, s\<lparr>user_data := ud\<rparr>))"
  by (simp add: get_text_def lift_def)

lemma drop_absent:
  "user_data self uid = None \<Longrightarrow> self\<lparr>user_data := (user_data self)(uid := None)\<rparr> = self"
  by (simp add: fun_upd_idem)

text \<open>The dispatcher, with its \<^verbatim>\<open>try\<close> resolved.\<close>

lemma send_to_pyrus_eq:
  "send_to_pyrus env d self =
     (case build_request env d of
        Inl e \<Rightarrow> (Inr False, [], self)
      | Inr req \<Rightarrow>
          (Inr (case post env req of Inl e \<Rightarrow> False | Inr resp \<Rightarrow> fst resp = 200),
           [Post req], self))"
  by (simp add: send_to_pyrus_def try_except_def bind_def lift_def requests_post_def return_def
      split: sum.splits)

lemma send_to_pyrus_returns: "\<exists>ok tr. send_to_pyrus env d self = (Inr ok, tr, self)"
  by (cases "build_request env d") (auto simp: send_to_pyrus_eq)

text \<open>The concrete bot: its request, and the texts its Russian bundle resolves.\<close>

lemma demo_request:
  "build_request (demo_env\<lparr>post := p\<rparr>) demo_draft =
     Inr \<lparr>url = ''https://api.pyrus.com/v4/tasks'', authorization = ''Bearer token'',
          form_id = ''form'', summary_user = ''Ivan'', summary_group = ''Branch-12'',
          field_values = [(1, ''Branch-12''), (2, ''Central''), (3, ''Printer jammed'')],
          timeout = 10\<rparr>"
  by (simp add: build_request_def demo_env_def demo_draft_def)

lemma demo_env_post: "demo_env\<lparr>post := answers 200\<rparr> = demo_env"
  by (simp add: demo_env_def)

lemma demo_text:
  "localization self = demo_locales \<Longrightarrow> user_settings (data_manager self) = Map.empty \<Longrightarrow>
   get_text (demo_env\<lparr>post := p\<rparr>) uid [''ticket'', ''created''] [] self
     = (Inr (JStr ''Ticket created''), [], self) \<and>
   get_text (demo_env\<lparr>post := p\<rparr>) uid [''ticket'', ''cancelled''] [] self
     = (Inr (JStr ''Cancelled''), [], self) \<and>
   get_text (demo_env\<lparr>post := p\<rparr>) uid [''errors'', ''pyrus_error''] [] self
     = (Inr (JStr ''Sending failed''), [], self) \<and>
   get_text (demo_env\<lparr>post := p\<rparr>) uid [''errors'', ''empty_branch''] [] self
     = (Inr (JStr ''Branch is empty''), [], self) \<and>
   get_text (demo_env\<lparr>post := p\<rparr>) uid [''errors'', ''empty_description''] [] self
     = (Inr (JStr ''Description is empty''), [], self)"
  by (simp add: get_text_def lift_def get_def clashes_def get_try_def get_user_language_def demo_locales_def
      ru_bundle_def subscript_def)

section \<open>The ticket dispatcher\<close>

text \<open>
  C3. The dispatcher raises nothing: for every draft, every bot and every behaviour of
  \<^verbatim>\<open>requests.post\<close> it returns a boolean and leaves the bot as it was. It returns
  \<^verbatim>\<open>True\<close> exactly when the request could be built and the backend responded with
  the status the code takes for success, 200; every other status, and every
  exception raised by the post (a transport fault, a timeout), gives \<^verbatim>\<open>False\<close>.
\<close>

theorem send_to_pyrus_definite:
  "(\<exists>ok tr. send_to_pyrus env d self = (Inr ok, tr, self)) \<and>
   (fst (send_to_pyrus env d self) = Inr True \<longleftrightarrow>
      (\<exists>req body. build_request env d = Inr req \<and> post env req = Inr (200, body))) \<and>
   (\<forall>req status body.
      build_request env d = Inr req \<and> post env req = Inr (status, body) \<and> status \<noteq> 200 \<longrightarrow>
      fst (send_to_pyrus env d self) = Inr False) \<and>
   (\<forall>req e.
      build_request env d = Inr req \<and> post env req = Inl e \<longrightarrow>
      fst (send_to_pyrus env d self) = Inr False)"
proof (cases "build_request env d")
  case (Inl e)
  then show ?thesis
    by (auto simp: send_to_pyrus_eq)
next
  case (Inr req)
  show ?thesis
  proof (cases "post env req")
    case (Inl e)
    with Inr show ?thesis
      by (auto simp: send_to_pyrus_eq)
  next
    case (Inr response)
    obtain status body where "response = (status, body)"
      by (cases response)
    with Inr \<open>build_request env d = Inr req\<close> show ?thesis
      by (auto simp: send_to_pyrus_eq)
  qed
qed

theorem send_to_pyrus_definite_witness:
  "fst (send_to_pyrus demo_env demo_draft demo_bot) = Inr True \<and>
   fst (send_to_pyrus (demo_env\<lparr>post := answers 500\<rparr>) demo_draft demo_bot) = Inr False \<and>
   fst (send_to_pyrus (demo_env\<lparr>post := times_out\<rparr>) demo_draft demo_bot) = Inr False"
proof -
  have a: "fst (send_to_pyrus demo_env demo_draft demo_bot) = Inr True"
    using send_to_pyrus_definite [of "demo_env\<lparr>post := answers 200\<rparr>" demo_draft demo_bot]
    by (simp add: demo_request answers_def) (simp add: demo_env_post)
  have b: "fst (send_to_pyrus (demo_env\<lparr>post := answers 500\<rparr>) demo_draft demo_bot) = Inr False"
    using send_to_pyrus_definite [of "demo_env\<lparr>post := answers 500\<rparr>" demo_draft demo_bot]
    by (simp add: demo_request answers_def)
  have c: "fst (send_to_pyrus (demo_env\<lparr>post := times_out\<rparr>) demo_draft demo_bot) = Inr False"
    using send_to_pyrus_definite [of "demo_env\<lparr>post := times_out\<rparr>" demo_draft demo_bot]
    by (simp add: demo_request times_out_def)
  from a b c show ?thesis by simp
qed

section \<open>The confirm decision\<close>

text \<open>
  C1. When the confirm button is pressed and a draft exists for the user, the
  dispatcher is called with that draft; the success acknowledgement is the text
  edited into the message when it returns \<^verbatim>\<open>True\<close>, the dispatch-error
  acknowledgement when it returns \<^verbatim>\<open>False\<close>; and in both cases the draft is
  deleted afterwards, so that the user has no entry in \<^verbatim>\<open>user_data\<close> when the
  handler returns. The transport is taken to carry out the answer to the query and
  the edit of the acknowledgement.
\<close>

theorem confirm_dispatches_and_discards:
  assumes "query_data upd = ''confirm_ticket''"
      and "user_data self (effective_user_id upd) = Some d"
      and "accepts env Answer"
  shows "\<exists>ok tr ack.
      send_to_pyrus env d self = (Inr ok, tr, self) \<and>
      get_text env (effective_user_id upd)
        (if ok then [''ticket'', ''created''] else [''errors'', ''pyrus_error'']) [] self
        = (Inr ack, [], self) \<and>
      (accepts env (Edit (Direct ack) None) \<longrightarrow>
         confirm_ticket_callback env upd self =
           (Inr (), Answer # tr @ [Edit (Direct ack) None],
            self\<lparr>user_data := (user_data self)(effective_user_id upd := None)\<rparr>))"
proof -
  obtain ok tr where s: "send_to_pyrus env d self = (Inr ok, tr, self)"
    using send_to_pyrus_returns by blast
  obtain ack where a: "get_text env (effective_user_id upd)
        (if ok then [''ticket'', ''created''] else [''errors'', ''pyrus_error'']) [] self
        = (Inr ack, [], self)"
    using get_text_nokw by blast
  have "confirm_ticket_callback env upd self =
           (Inr (), Answer # tr @ [Edit (Direct ack) None],
            self\<lparr>user_data := (user_data self)(effective_user_id upd := None)\<rparr>)"
    if "accepts env (Edit (Direct ack) None)"
    using assms s a that
    by (cases ok)
       (simp_all add: confirm_ticket_callback_def Let_def bind_def try_except_def perform_def
          inspect_def edit_message_text_def del_user_data_def)
  with s a show ?thesis by blast
qed

theorem confirm_dispatches_and_discards_witness:
  "confirm_ticket_callback demo_env demo_update (demo_bot\<lparr>user_data := [42 \<mapsto> demo_draft]\<rparr>) =
     (Inr (),
      [Answer,
       Post \<lparr>url = ''https://api.pyrus.com/v4/tasks'', authorization = ''Bearer token'',
             form_id = ''form'', summary_user = ''Ivan'', summary_group = ''Branch-12'',
             field_values = [(1, ''Branch-12''), (2, ''Central''), (3, ''Printer jammed'')],
             timeout = 10\<rparr>,
       Edit (Direct (JStr ''Ticket created'')) None],
      demo_bot) \<and>
   confirm_ticket_callback (demo_env\<lparr>post := answers 500\<rparr>) demo_update
       (demo_bot\<lparr>user_data := [42 \<mapsto> demo_draft]\<rparr>) =
     (Inr (),
      [Answer,
       Post \<lparr>url = ''https://api.pyrus.com/v4/tasks'', authorization = ''Bearer token'',
             form_id = ''form'', summary_user = ''Ivan'', summary_group = ''Branch-12'',
             field_values = [(1, ''Branch-12''), (2, ''Central''), (3, ''Printer jammed'')],
             timeout = 10\<rparr>,
       Edit (Direct (JStr ''Sending failed'')) None],
      demo_bot)"
proof -
  let ?self = "demo_bot\<lparr>user_data := [42 \<mapsto> demo_draft]\<rparr>"
  let ?req = "\<lparr>url = ''https://api.pyrus.com/v4/tasks'', authorization = ''Bearer token'',
             form_id = ''form'', summary_user = ''Ivan'', summary_group = ''Branch-12'',
             field_values = [(1, ''Branch-12''), (2, ''Central''), (3, ''Printer jammed'')],
             timeout = 10\<rparr>"
  have q: "query_data demo_update = ''confirm_ticket''"
    and u: "user_data ?self (effective_user_id demo_update) = Some demo_draft"
    and e: "accepts (demo_env\<lparr>post := p\<rparr>) eff" for p eff
    by (simp_all add: demo_update_def demo_env_def always_def)
  have loc: "localization ?self = demo_locales" "user_settings (data_manager ?self) = Map.empty"
    by (simp_all add: demo_bot_def)
  have gone: "?self\<lparr>user_data := (user_data ?self)(effective_user_id demo_update := None)\<rparr> = demo_bot"
    by (simp add: demo_bot_def demo_update_def)
  have run: "confirm_ticket_callback (demo_env\<lparr>post := answers status\<rparr>) demo_update ?self =
      (Inr (), [Answer, Post ?req,
         Edit (Direct (JStr (if status = 200 then ''Ticket created'' else ''Sending failed''))) None],
       demo_bot)" for status
  proof -
    let ?env = "demo_env\<lparr>post := answers status\<rparr>"
    obtain ok tr ack where
      s: "send_to_pyrus ?env demo_draft ?self = (Inr ok, tr, ?self)" and
      a: "get_text ?env (effective_user_id demo_update)
            (if ok then [''ticket'', ''created''] else [''errors'', ''pyrus_error'']) [] ?self
          = (Inr ack, [], ?self)" and
      c: "accepts ?env (Edit (Direct ack) None) \<longrightarrow>
          confirm_ticket_callback ?env demo_update ?self =
            (Inr (), Answer # tr @ [Edit (Direct ack) None],
             ?self\<lparr>user_data := (user_data ?self)(effective_user_id demo_update := None)\<rparr>)"
      using confirm_dispatches_and_discards [OF q u e, of "answers status"] by blast
    have "send_to_pyrus ?env demo_draft ?self = (Inr (status = 200), [Post ?req], ?self)"
      by (simp add: send_to_pyrus_eq demo_request answers_def)
    with s have ok: "ok = (status = 200)" and tr: "tr = [Post ?req]" by simp_all
    have ack: "ack = JStr (if status = 200 then ''Ticket created'' else ''Sending failed'')"
      using a demo_text [OF loc, of "answers status" "effective_user_id demo_update"] ok
      by (cases "status = 200") simp_all
    from c e have "confirm_ticket_callback ?env demo_update ?self =
            (Inr (), Answer # tr @ [Edit (Direct ack) None],
             ?self\<lparr>user_data := (user_data ?self)(effective_user_id demo_update := None)\<rparr>)"
      by blast
    then show ?thesis unfolding gone by (simp add: tr ack)
  qed
  show ?thesis
    using run [of 200] run [of 500] by (simp add: demo_env_post)
qed

section \<open>Starting a dialog\<close>

text \<open>
  C2. In a group or supergroup, once the group is recorded, the ticket-start command
  stores under the user a draft made only of the group name, the group id and the
  submitter name of this call, with no branch and no description, whatever the bot
  held for that user before. So after two starts by one user the draft is the one of
  the second start, and nothing of the first is kept.
\<close>

theorem sos_command_fresh_draft:
  assumes "chat_type upd \<in> set [''group'', ''supergroup'']"
      and "chat_type upd' \<in> set [''group'', ''supergroup'']"
      and "effective_user_id upd' = effective_user_id upd"
      and "\<And>g. accepts env (SaveGroups g)"
  shows "user_data (state_of (sos_command env upd self)) (effective_user_id upd) =
           Some \<lparr>group_name = chat_title upd, group_id = chat_id upd,
                 user_name = effective_user_full_name upd, branch = None, description = None\<rparr> \<and>
         user_data (state_of (sos_command env upd' (state_of (sos_command env upd self))))
             (effective_user_id upd) =
           Some \<lparr>group_name = chat_title upd', group_id = chat_id upd',
                 user_name = effective_user_full_name upd', branch = None, description = None\<rparr>"
proof -
  have one: "user_data (state_of (sos_command env u s)) (effective_user_id u) = Some (new_draft u)"
    if "chat_type u \<in> set [''group'', ''supergroup'']" for u s
    using that assms(4)
    by (simp add: sos_command_def Let_def bind_def add_group_def modify_def save_groups_def
        perform_def get_text_nokw_eq reply_text_def return_def state_of_def)
  show ?thesis
    using one [OF assms(1), of self]
      one [OF assms(2), of "state_of (sos_command env upd self)"] assms(3)
    by (simp add: new_draft_def)
qed

theorem sos_command_fresh_draft_witness:
  "user_data
     (state_of (sos_command demo_env
        (demo_update\<lparr>chat_type := ''supergroup'', chat_id := 777, chat_title := ''Branch-7''\<rparr>)
        (state_of (sos_command demo_env demo_update
           (demo_bot\<lparr>user_data := [42 \<mapsto> demo_draft]\<rparr>))))) 42 =
     Some \<lparr>group_name = ''Branch-7'', group_id = 777, user_name = ''Ivan'',
           branch = None, description = None\<rparr>"
proof -
  let ?upd' = "demo_update\<lparr>chat_type := ''supergroup'', chat_id := 777, chat_title := ''Branch-7''\<rparr>"
  have a: "chat_type demo_update \<in> set [''group'', ''supergroup'']"
    and b: "chat_type ?upd' \<in> set [''group'', ''supergroup'']"
    and c: "effective_user_id ?upd' = effective_user_id demo_update"
    and d: "accepts demo_env (SaveGroups g)" for g
    by (simp_all add: demo_update_def demo_env_def always_def)
  show ?thesis
    using sos_command_fresh_draft [OF a b c d, of "demo_bot\<lparr>user_data := [42 \<mapsto> demo_draft]\<rparr>"]
    by (simp add: demo_update_def)
qed

section \<open>Empty replies\<close>

text \<open>
  C8. When the reply is empty after \<^verbatim>\<open>strip\<close>, the branch step sends the empty-branch
  error and returns \<^verbatim>\<open>BRANCH\<close>, the description step sends the empty-description
  error and returns \<^verbatim>\<open>DESCRIPTION\<close>, and in both the bot is returned as it was:
  no field of any draft changes. (When the transport does not carry the message the
  handler raises, with the bot as it was as well.)
\<close>

theorem empty_input_keeps_draft:
  assumes "strip (message_text upd) = []"
  shows "\<exists>t1 t2.
    get_text env (effective_user_id upd) [''errors'', ''empty_branch''] [] self
      = (Inr t1, [], self) \<and>
    receive_branch env upd self =
      (if accepts env (Reply (Direct t1) None)
       then (Inr BRANCH, [Reply (Direct t1) None], self)
       else (Inl TelegramError, [], self)) \<and>
    get_text env (effective_user_id upd) [''errors'', ''empty_description''] [] self
      = (Inr t2, [], self) \<and>
    receive_description env upd self =
      (if accepts env (Reply (Direct t2) None)
       then (Inr DESCRIPTION, [Reply (Direct t2) None], self)
       else (Inl TelegramError, [], self))"
proof -
  obtain t1 where t1: "get_text env (effective_user_id upd) [''errors'', ''empty_branch''] [] self
      = (Inr t1, [], self)"
    using get_text_nokw by blast
  obtain t2 where t2: "get_text env (effective_user_id upd) [''errors'', ''empty_description''] [] self
      = (Inr t2, [], self)"
    using get_text_nokw by blast
  have b: "receive_branch env upd self =
      (if accepts env (Reply (Direct t1) None)
       then (Inr BRANCH, [Reply (Direct t1) None], self)
       else (Inl TelegramError, [], self))"
    using assms t1
    by (simp add: receive_branch_def bind_def reply_text_def perform_def return_def)
  have d: "receive_description env upd self =
      (if accepts env (Reply (Direct t2) None)
       then (Inr DESCRIPTION, [Reply (Direct t2) None], self)
       else (Inl TelegramError, [], self))"
    using assms t2
    by (simp add: receive_description_def bind_def reply_text_def perform_def return_def)
  from t1 t2 b d show ?thesis by blast
qed

theorem empty_input_keeps_draft_witness:
  "strip (message_text demo_update) = [] \<and>
   receive_branch demo_env demo_update (demo_bot\<lparr>user_data := [42 \<mapsto> demo_draft]\<rparr>) =
     (Inr BRANCH, [Reply (Direct (JStr ''Branch is empty'')) None],
      demo_bot\<lparr>user_data := [42 \<mapsto> demo_draft]\<rparr>) \<and>
   receive_description demo_env demo_update (demo_bot\<lparr>user_data := [42 \<mapsto> demo_draft]\<rparr>) =
     (Inr DESCRIPTION, [Reply (Direct (JStr ''Description is empty'')) None],
      demo_bot\<lparr>user_data := [42 \<mapsto> demo_draft]\<rparr>)"
proof -
  let ?self = "demo_bot\<lparr>user_data := [42 \<mapsto> demo_draft]\<rparr>"
  have h: "strip (message_text demo_update) = []"
    by (simp add: demo_update_def strip_def isspace_def)
  have e: "accepts demo_env eff" for eff
    by (simp add: demo_env_def always_def)
  have loc: "localization ?self = demo_locales" "user_settings (data_manager ?self) = Map.empty"
    by (simp_all add: demo_bot_def)
  obtain t1 t2 where
    t1: "get_text demo_env (effective_user_id demo_update) [''errors'', ''empty_branch''] [] ?self
          = (Inr t1, [], ?self)" and
    b: "receive_branch demo_env demo_update ?self =
      (if accepts demo_env (Reply (Direct t1) None)
       then (Inr BRANCH, [Reply (Direct t1) None], ?self)
       else (Inl TelegramError, [], ?self))" and
    t2: "get_text demo_env (effective_user_id demo_update) [''errors'', ''empty_description''] [] ?self
          = (Inr t2, [], ?self)" and
    d: "receive_description demo_env demo_update ?self =
      (if accepts demo_env (Reply (Direct t2) None)
       then (Inr DESCRIPTION, [Reply (Direct t2) None], ?self)
       else (Inl TelegramError, [], ?self))"
    using empty_input_keeps_draft [OF h, of demo_env ?self] by blast
  have "t1 = JStr ''Branch is empty''" "t2 = JStr ''Description is empty''"
    using t1 t2 demo_text [OF loc, of "answers 200" "effective_user_id demo_update"]
    by (simp_all add: demo_env_post)
  with h b d e show ?thesis by simp
qed

section \<open>Cancelling\<close>

text \<open>
  C9. The cancel command sends the cancellation acknowledgement and leaves the user
  without a draft, whether or not there was one: the deletion is guarded, so a user
  with no draft raises no \<open>KeyError\<close> and the bot is unchanged, and a second cancel
  changes nothing more. The cancel button of the confirmation message does the same
  once its query is answered: the user has no draft afterwards, and the
  acknowledgement is edited into the message.
\<close>

theorem cancel_always_discards:
  "\<exists>t. get_text env (effective_user_id upd) [''ticket'', ''cancelled''] [] self = (Inr t, [], self) \<and>
     cancel env upd self =
       (if accepts env (Reply (Direct t) None)
        then (Inr END, [Reply (Direct t) None],
              self\<lparr>user_data := (user_data self)(effective_user_id upd := None)\<rparr>)
        else (Inl TelegramError, [],
              self\<lparr>user_data := (user_data self)(effective_user_id upd := None)\<rparr>)) \<and>
     user_data (state_of (cancel env upd self)) (effective_user_id upd) = None \<and>
     (user_data self (effective_user_id upd) = None \<longrightarrow> state_of (cancel env upd self) = self) \<and>
     state_of (cancel env upd (state_of (cancel env upd self))) = state_of (cancel env upd self) \<and>
     (query_data upd = ''cancel_ticket'' \<and> accepts env Answer \<longrightarrow>
        user_data (state_of (confirm_ticket_callback env upd self)) (effective_user_id upd) = None \<and>
        (accepts env (Edit (Direct t) None) \<longrightarrow>
           confirm_ticket_callback env upd self =
             (Inr (), [Answer, Edit (Direct t) None],
              self\<lparr>user_data := (user_data self)(effective_user_id upd := None)\<rparr>)))"
proof -
  let ?uid = "effective_user_id upd"
  let ?s = "self\<lparr>user_data := (user_data self)(?uid := None)\<rparr>"
  obtain t where t: "get_text env ?uid [''ticket'', ''cancelled''] [] self = (Inr t, [], self)"
    using get_text_nokw by blast
  have t': "get_text env ?uid [''ticket'', ''cancelled''] [] (self\<lparr>user_data := ud\<rparr>)
      = (Inr t, [], self\<lparr>user_data := ud\<rparr>)" for ud
    using t by (simp add: get_text_user_data)
  obtain g where g: "get_text env ?uid [''errors'', ''general_error''] [] self = (Inr g, [], self)"
    using get_text_nokw by blast
  have g': "get_text env ?uid [''errors'', ''general_error''] [] (self\<lparr>user_data := ud\<rparr>)
      = (Inr g, [], self\<lparr>user_data := ud\<rparr>)" for ud
    using g by (simp add: get_text_user_data)
  have c: "cancel env upd s =
       (if accepts env (Reply (Direct t) None)
        then (Inr END, [Reply (Direct t) None], s\<lparr>user_data := (user_data s)(?uid := None)\<rparr>)
        else (Inl TelegramError, [], s\<lparr>user_data := (user_data s)(?uid := None)\<rparr>))"
    if "get_text env ?uid [''ticket'', ''cancelled''] []
          (s\<lparr>user_data := (user_data s)(?uid := None)\<rparr>)
        = (Inr t, [], s\<lparr>user_data := (user_data s)(?uid := None)\<rparr>)" for s
  proof (cases "user_data s ?uid")
    case None
    then have "s\<lparr>user_data := (user_data s)(?uid := None)\<rparr> = s" by (rule drop_absent)
    with None that show ?thesis
      by (simp add: cancel_def Let_def bind_def inspect_def return_def reply_text_def perform_def)
  next
    case (Some d)
    with that show ?thesis
      by (simp add: cancel_def Let_def bind_def inspect_def return_def reply_text_def perform_def
          del_user_data_def)
  qed
  have c1: "cancel env upd self =
       (if accepts env (Reply (Direct t) None)
        then (Inr END, [Reply (Direct t) None], ?s) else (Inl TelegramError, [], ?s))"
    using c [of self] t' by simp
  have st: "state_of (cancel env upd self) = ?s"
    by (simp add: c1 state_of_def)
  have c2: "state_of (cancel env upd ?s) = ?s"
    using c [of ?s] t' by (simp add: state_of_def)
  have cb: "user_data (state_of (confirm_ticket_callback env upd self)) ?uid = None \<and>
        (accepts env (Edit (Direct t) None) \<longrightarrow>
           confirm_ticket_callback env upd self = (Inr (), [Answer, Edit (Direct t) None], ?s))"
    if "query_data upd = ''cancel_ticket''" "accepts env Answer"
  proof (cases "user_data self ?uid")
    case None
    then have "?s = self" by (rule drop_absent)
    with None that t g show ?thesis
      by (simp add: confirm_ticket_callback_def Let_def bind_def try_except_def inspect_def
          return_def edit_message_text_def perform_def state_of_def)
  next
    case (Some d)
    with that t' g' show ?thesis
      by (simp add: confirm_ticket_callback_def Let_def bind_def try_except_def inspect_def
          return_def edit_message_text_def perform_def del_user_data_def state_of_def)
  qed
  show ?thesis
    using t c1 st c2 cb by (intro exI [of _ t]) (simp add: drop_absent)
qed

theorem cancel_always_discards_witness:
  "user_data demo_bot 42 = None \<and>
   cancel demo_env demo_update demo_bot =
     (Inr END, [Reply (Direct (JStr ''Cancelled'')) None], demo_bot) \<and>
   confirm_ticket_callback demo_env (demo_update\<lparr>query_data := ''cancel_ticket''\<rparr>) demo_bot =
     (Inr (), [Answer, Edit (Direct (JStr ''Cancelled'')) None], demo_bot)"
proof -
  let ?upd = "demo_update\<lparr>query_data := ''cancel_ticket''\<rparr>"
  have n: "user_data demo_bot (effective_user_id ?upd) = None"
    by (simp add: demo_bot_def)
  have q: "query_data ?upd = ''cancel_ticket''"
    by simp
  have e: "accepts demo_env eff" for eff
    by (simp add: demo_env_def always_def)
  have loc: "localization demo_bot = demo_locales"
    "user_settings (data_manager demo_bot) = Map.empty"
    by (simp_all add: demo_bot_def)
  have same: "cancel demo_env ?upd = cancel demo_env demo_update"
    by (simp add: cancel_def)
  obtain t where
    t: "get_text demo_env (effective_user_id ?upd) [''ticket'', ''cancelled''] [] demo_bot
          = (Inr t, [], demo_bot)" and
    c: "cancel demo_env ?upd demo_bot =
       (if accepts demo_env (Reply (Direct t) None)
        then (Inr END, [Reply (Direct t) None],
              demo_bot\<lparr>user_data := (user_data demo_bot)(effective_user_id ?upd := None)\<rparr>)
        else (Inl TelegramError, [],
              demo_bot\<lparr>user_data := (user_data demo_bot)(effective_user_id ?upd := None)\<rparr>))" and
    b: "query_data ?upd = ''cancel_ticket'' \<and> accepts demo_env Answer \<longrightarrow>
        (accepts demo_env (Edit (Direct t) None) \<longrightarrow>
           confirm_ticket_callback demo_env ?upd demo_bot =
             (Inr (), [Answer, Edit (Direct t) None],
              demo_bot\<lparr>user_data := (user_data demo_bot)(effective_user_id ?upd := None)\<rparr>))"
    using cancel_always_discards [of demo_env ?upd demo_bot] by blast
  have tv: "t = JStr ''Cancelled''"
    using t demo_text [OF loc, of "answers 200" "effective_user_id ?upd"]
    by (simp add: demo_env_post)
  have keep: "demo_bot\<lparr>user_data := (user_data demo_bot)(effective_user_id ?upd := None)\<rparr> = demo_bot"
    using n by (rule drop_absent)
  from c e have "cancel demo_env demo_update demo_bot =
      (Inr END, [Reply (Direct (JStr ''Cancelled'')) None], demo_bot)"
    unfolding keep same tv by simp
  moreover from b q e have "confirm_ticket_callback demo_env ?upd demo_bot =
      (Inr (), [Answer, Edit (Direct (JStr ''Cancelled'')) None], demo_bot)"
    unfolding keep tv by blast
  moreover have "user_data demo_bot 42 = None"
    by (simp add: demo_bot_def)
  ultimately show ?thesis by simp
qed

section \<open>The language of a user\<close>

text \<open>
  C10. After \<^verbatim>\<open>set_user_language\<close> for a user, \<^verbatim>\<open>get_user_language\<close> for that user
  returns the language set (whether or not the settings file could be saved, and for
  any language code), and for a user with no stored language it returns
  \<^verbatim>\<open>RU\<close>.
\<close>

theorem language_round_trip:
  "get_user_language (data_manager (state_of (set_user_language env uid language self))) uid
     = language \<and>
   ((case user_settings (data_manager self) (str_int uid) of
       None \<Rightarrow> True | Some s \<Rightarrow> s ''language'' = None) \<longrightarrow>
    get_user_language (data_manager self) uid = ''RU'')"
  by (auto simp: set_user_language_def bind_def modify_def save_user_settings_def perform_def
      state_of_def set_language_mem_def get_user_language_def split: option.splits)

theorem language_round_trip_witness:
  "get_user_language (data_manager (state_of (set_user_language demo_env 42 ''UZ'' demo_bot))) 42
     = ''UZ'' \<and>
   user_settings (data_manager demo_bot) (str_int 42) = None \<and>
   get_user_language (data_manager demo_bot) 42 = ''RU''"
proof -
  have n: "user_settings (data_manager demo_bot) (str_int 42) = None"
    by (simp add: demo_bot_def)
  show ?thesis
    using language_round_trip [of demo_env 42 "''UZ''" demo_bot] n by simp
qed

section \<open>Resolving localized text\<close>

text \<open>Formatting a template written from its pieces.\<close>

lemma str_format_escape:
  "str_format lib kw (escape s @ rest) = map_sum id ((@) s) (str_format lib kw rest)"
proof (induction s)
  case Nil
  show ?case by (simp add: escape_def sum.map_ident)
next
  case (Cons c s)
  have e: "escape (c # s) = (if c = CHR ''{'' \<or> c = CHR ''}'' then [c, c] else [c]) @ escape s"
    for c
    by (simp add: escape_def)
  show ?case
    using Cons.IH
    by (cases "c = CHR ''{''"; cases "c = CHR ''}''") (simp_all add: e sum.map_comp comp_def)
qed

lemma plain_field_name:
  assumes "plain_name n"
  shows "takeWhile name_char (n @ CHR ''}'' # rest) = n"
    and "dropWhile name_char (n @ CHR ''}'' # rest) = CHR ''}'' # rest"
    and "plain_field (n @ CHR ''}'' # rest)"
proof -
  have a: "\<forall>c\<in>set n. name_char c"
    using assms by (simp add: plain_name_def list_all_iff)
  have b: "\<not> name_char CHR ''}''"
    by (simp add: name_char_def)
  show t: "takeWhile name_char (n @ CHR ''}'' # rest) = n"
    using a b by simp
  show d: "dropWhile name_char (n @ CHR ''}'' # rest) = CHR ''}'' # rest"
    using a b by simp
  show "plain_field (n @ CHR ''}'' # rest)"
    using assms by (simp add: plain_field_def t d plain_name_def)
qed

lemma str_format_field:
  assumes "plain_name n"
  shows "str_format lib kw (CHR ''{'' # n @ CHR ''}'' # rest) =
     (case map_of kw n of
        None \<Rightarrow> Inl KeyError
      | Some v \<Rightarrow> map_sum id ((@) v) (str_format lib kw rest))"
proof -
  obtain c cs where n: "n = c # cs"
    using assms by (cases n) (auto simp: plain_name_def)
  have c: "c \<noteq> CHR ''{''"
    using assms n by (auto simp: plain_name_def name_char_def)
  have f: "field lib kw (n @ CHR ''}'' # rest) =
      (case map_of kw n of None \<Rightarrow> Inl KeyError | Some v \<Rightarrow> Inr (v, length n))"
    by (simp add: field_def plain_field_name [OF assms] split: option.splits)
  have "str_format lib kw (CHR ''{'' # c # cs @ CHR ''}'' # rest) =
      (case field lib kw (c # cs @ CHR ''}'' # rest) of
         Inl e \<Rightarrow> Inl e
       | Inr (v, k) \<Rightarrow>
           map_sum id ((@) v) (str_format lib kw (drop (Suc k) (c # cs @ CHR ''}'' # rest))))"
    using c by (simp del: drop_Suc_Cons)
  then show ?thesis
    using f by (simp add: n split: option.splits)
qed

lemma str_format_template:
  assumes "\<forall>n\<in>set (field_names ps). plain_name n"
  shows "str_format lib kw (template_text ps) =
     (if \<forall>n\<in>set (field_names ps). map_of kw n \<noteq> None
      then Inr (substituted kw ps) else Inl KeyError)"
  using assms
proof (induction ps)
  case Nil
  show ?case by simp
next
  case (Cons p ps)
  show ?case
  proof (cases p)
    case (Lit s)
    with Cons show ?thesis
      by (simp add: str_format_escape del: str_format.simps)
  next
    case (Field n)
    with Cons show ?thesis
      by (auto simp: str_format_field simp del: str_format.simps split: option.splits)
  qed
qed

lemma demo_lookup:
  "demo_locales ''RU'' = Some ru_bundle" "demo_locales ''UZ'' = Some (JObj [])"
  "demo_locales ''FR'' = None"
  "walk ru_bundle [''ticket'', ''created''] = Inr (JStr ''Ticket created'')"
  "subscript (JObj []) ''ticket'' = Inl KeyError"
  by (simp_all add: demo_locales_def ru_bundle_def subscript_def)

lemma demo_greeting:
  "walk ru_bundle [''ticket'', ''greeting'']
     = Inr (JStr (template_text [Field ''a'', Lit '' '', Field ''b'']))"
  by (simp add: ru_bundle_def subscript_def escape_def)

text \<open>A keyword named as a positional parameter of \<open>get\<close> raises at the call.\<close>

lemma get_keyword_clash:
  "get lib locs lang keys [(''lang'', v)] = Inl TypeError"
  "get lib locs lang keys [(''self'', v)] = Inl TypeError"
  by (simp_all add: get_def clashes_def)

text \<open>
  C5, as the code has it. For a key path that resolves to a template whose
  placeholders are plain names, and parameters none of which is named \<^verbatim>\<open>self\<close> or
  \<^verbatim>\<open>lang\<close> (the names of the positional parameters of \<^verbatim>\<open>get\<close>): called without
  parameters, \<open>get\<close> returns the
  template as it is written, every placeholder in place; called with parameters that
  match every placeholder, it returns the template with each placeholder replaced by
  its value; called with parameters of which none matches some placeholder, it
  returns the missing-translation text for the key path and substitutes nothing.
  None of the three raises.
\<close>

theorem get_substitution:
  assumes "\<forall>n\<in>set (field_names ps). plain_name n"
      and "locs ''RU'' = Some ru"
      and "walk (case locs lang of None \<Rightarrow> ru | Some b \<Rightarrow> b) keys = Inr (JStr (template_text ps))"
      and "\<not> clashes [''self'', ''lang''] kw"
  shows "get lib locs lang keys kw =
     Inr (JStr (if kw = [] then template_text ps
                else if \<forall>n\<in>set (field_names ps). map_of kw n \<noteq> None then substituted kw ps
                else missing_translation keys))"
  using assms(2,3,4) str_format_template [OF assms(1), of lib kw]
  by (auto simp: get_def get_try_def py_format_def)

theorem get_substitution_witness:
  "get no_lib demo_locales ''RU'' [''ticket'', ''greeting''] [] = Inr (JStr ''{a} {b}'') \<and>
   get no_lib demo_locales ''RU'' [''ticket'', ''greeting''] [(''a'', ''x''), (''b'', ''y'')]
     = Inr (JStr ''x y'') \<and>
   get no_lib demo_locales ''RU'' [''ticket'', ''greeting''] [(''b'', ''y'')]
     = Inr (JStr ''[Missing translation: ticket.greeting]'')"
proof -
  let ?ps = "[Field ''a'', Lit '' '', Field ''b'']"
  have p: "\<forall>n\<in>set (field_names ?ps). plain_name n"
    by (simp add: plain_name_def name_char_def is_digit_def)
  have w: "walk (case demo_locales ''RU'' of None \<Rightarrow> ru_bundle | Some b \<Rightarrow> b)
      [''ticket'', ''greeting''] = Inr (JStr (template_text ?ps))"
    unfolding demo_lookup(1) option.case by (rule demo_greeting)
  have g: "get no_lib demo_locales ''RU'' [''ticket'', ''greeting''] kw =
     Inr (JStr (if kw = [] then template_text ?ps
                else if \<forall>n\<in>set (field_names ?ps). map_of kw n \<noteq> None then substituted kw ?ps
                else missing_translation [''ticket'', ''greeting'']))"
    if "\<not> clashes [''self'', ''lang''] kw" for kw
    by (rule get_substitution [of ?ps demo_locales ru_bundle "''RU''", OF p demo_lookup(1) w that])
  have c: "\<not> clashes [''self'', ''lang''] []"
    "\<not> clashes [''self'', ''lang''] [(''a'', ''x''), (''b'', ''y'')]"
    "\<not> clashes [''self'', ''lang''] [(''b'', ''y'')]"
    by (simp_all add: clashes_def)
  show ?thesis
    by (simp add: g [OF c(1)] g [OF c(2)] g [OF c(3)] escape_def missing_translation_def)
qed

text \<open>
  C5 as stated fails: with the parameter \<^verbatim>\<open>a\<close> alone, the template
  \<^verbatim>\<open>{a} {b}\<close> does not come back as \<^verbatim>\<open>x {b}\<close>, the substitution that leaves the
  unmatched placeholder in place; the \<open>KeyError\<close> of the format is caught and the
  missing-translation text is returned.
\<close>

theorem get_unmatched_placeholder_counterexample:
  "get no_lib demo_locales ''RU'' [''ticket'', ''greeting''] [(''a'', ''x'')]
     = Inr (JStr ''[Missing translation: ticket.greeting]'') \<and>
   substituted [(''a'', ''x'')] [Field ''a'', Lit '' '', Field ''b''] = ''x {b}'' \<and>
   get no_lib demo_locales ''RU'' [''ticket'', ''greeting''] [(''a'', ''x'')]
     \<noteq> Inr (JStr ''x {b}'')"
  by (simp add: get_def clashes_def get_try_def py_format_def demo_locales_def ru_bundle_def
      subscript_def field_def plain_field_def name_char_def is_digit_def missing_translation_def)

text \<open>
  C7, as the code has it. A language without a bundle is resolved in the \<^verbatim>\<open>RU\<close>
  bundle. When a segment of the key path cannot be read, because the value reached
  is a mapping without that key or is not a mapping, or when there is no \<^verbatim>\<open>RU\<close>
  bundle, \<open>get\<close> returns the missing-translation text with the dotted key path and
  raises nothing, whatever the parameters, as long as none of them is named
  \<^verbatim>\<open>self\<close> or \<^verbatim>\<open>lang\<close> (the names of the positional parameters of \<^verbatim>\<open>get\<close>). When the
  path ends at a string and no
  parameters are given, that string is returned.
\<close>

theorem get_fallback_and_placeholder:
  "(locs lang = None \<longrightarrow> get lib locs lang keys kw = get lib locs ''RU'' keys kw) \<and>
   (\<forall>ru v e.
      \<not> clashes [''self'', ''lang''] kw \<and>
      locs ''RU'' = Some ru \<and> walk (case locs lang of None \<Rightarrow> ru | Some b \<Rightarrow> b) ks = Inr v \<and>
      subscript v k = Inl e \<longrightarrow>
      get lib locs lang (ks @ k # ks') kw = Inr (JStr (missing_translation (ks @ k # ks')))) \<and>
   (\<not> clashes [''self'', ''lang''] kw \<and> locs ''RU'' = None \<longrightarrow>
      get lib locs lang keys kw = Inr (JStr (missing_translation keys))) \<and>
   (\<forall>ru s.
      locs ''RU'' = Some ru \<and> walk (case locs lang of None \<Rightarrow> ru | Some b \<Rightarrow> b) keys = Inr (JStr s) \<longrightarrow>
      get lib locs lang keys [] = Inr (JStr s))"
proof -
  have a: "get lib locs lang keys kw = get lib locs ''RU'' keys kw" if "locs lang = None"
    using that by (simp add: get_def get_try_def split: option.splits)
  have b: "get lib locs lang (ks @ k # ks') kw = Inr (JStr (missing_translation (ks @ k # ks')))"
    if "locs ''RU'' = Some ru" "walk (case locs lang of None \<Rightarrow> ru | Some b \<Rightarrow> b) ks = Inr v"
      "subscript v k = Inl e" "\<not> clashes [''self'', ''lang''] kw" for ru v e
  proof -
    have "walk (case locs lang of None \<Rightarrow> ru | Some b \<Rightarrow> b) (ks @ k # ks') = Inl e"
      using that(2,3) by (simp add: walk_append)
    moreover have "e = KeyError \<or> e = TypeError"
      using that(3) by (auto simp: subscript_def split: json.splits option.splits)
    ultimately show ?thesis
      using that(1,4) by (auto simp: get_def get_try_def)
  qed
  have c: "get lib locs lang keys kw = Inr (JStr (missing_translation keys))"
    if "locs ''RU'' = None" "\<not> clashes [''self'', ''lang''] kw"
    using that by (simp add: get_def get_try_def)
  have d: "get lib locs lang keys [] = Inr (JStr s)"
    if "locs ''RU'' = Some ru" "walk (case locs lang of None \<Rightarrow> ru | Some b \<Rightarrow> b) keys = Inr (JStr s)"
    for ru s
    using that by (simp add: get_def get_try_def clashes_def)
  from a b c d show ?thesis by blast
qed

theorem get_fallback_and_placeholder_witness:
  "demo_locales ''FR'' = None \<and>
   get no_lib demo_locales ''FR'' [''ticket'', ''created''] [] = Inr (JStr ''Ticket created'') \<and>
   get no_lib demo_locales ''FR'' [''ticket'', ''absent''] []
     = Inr (JStr ''[Missing translation: ticket.absent]'') \<and>
   get no_lib demo_locales ''UZ'' [''ticket'', ''created''] []
     = Inr (JStr ''[Missing translation: ticket.created]'') \<and>
   get no_lib demo_locales ''UZ'' [''ticket'', ''created''] [(''user_name'', ''Ivan'')]
     = Inr (JStr ''[Missing translation: ticket.created]'') \<and>
   get no_lib Map.empty ''RU'' [''ticket'', ''created''] []
     = Inr (JStr ''[Missing translation: ticket.created]'')"
proof -
  have fr: "get no_lib demo_locales ''FR'' [''ticket'', ''created''] []
      = get no_lib demo_locales ''RU'' [''ticket'', ''created''] []"
    using get_fallback_and_placeholder [of demo_locales "''FR''" no_lib "[''ticket'', ''created'']" "[]"]
    by (simp add: demo_lookup)
  have ru: "get no_lib demo_locales ''RU'' [''ticket'', ''created''] [] = Inr (JStr ''Ticket created'')"
    using get_fallback_and_placeholder [of demo_locales "''RU''" no_lib "[''ticket'', ''created'']"]
    by (simp add: demo_lookup del: walk.simps)
  have uz: "get no_lib demo_locales ''UZ'' ([] @ ''ticket'' # [''created'']) []
      = Inr (JStr (missing_translation ([] @ ''ticket'' # [''created''])))"
    using get_fallback_and_placeholder [of demo_locales "''UZ''" no_lib "[]" "[]" "[]" "''ticket''"
        "[''created'']"]
    by (simp add: demo_lookup clashes_def del: walk.simps(2))
  have kw: "get no_lib demo_locales ''UZ'' ([] @ ''ticket'' # [''created'']) [(''user_name'', ''Ivan'')]
      = Inr (JStr (missing_translation ([] @ ''ticket'' # [''created''])))"
    using get_fallback_and_placeholder [of demo_locales "''UZ''" no_lib "[]"
        "[(''user_name'', ''Ivan'')]" "[]" "''ticket''" "[''created'']"]
    by (simp add: demo_lookup clashes_def del: walk.simps(2))
  have w: "walk ru_bundle [''ticket''] =
      Inr (JObj [(''created'', JStr ''Ticket created''), (''cancelled'', JStr ''Cancelled''),
                 (''greeting'', JStr ''{a} {b}'')])"
    by (simp add: ru_bundle_def subscript_def)
  have ab: "get no_lib demo_locales ''FR'' ([''ticket''] @ ''absent'' # []) []
      = Inr (JStr (missing_translation ([''ticket''] @ ''absent'' # [])))"
    using get_fallback_and_placeholder [of demo_locales "''FR''" no_lib "[]" "[]" "[''ticket'']"
        "''absent''" "[]"]
    by (simp add: demo_lookup w subscript_def clashes_def del: walk.simps(2))
  have none: "get no_lib Map.empty ''RU'' [''ticket'', ''created''] []
      = Inr (JStr (missing_translation [''ticket'', ''created'']))"
    using get_fallback_and_placeholder [of Map.empty "''RU''" no_lib "[''ticket'', ''created'']" "[]"]
    by (simp add: clashes_def)
  from fr ru ab uz kw none show ?thesis
    by (simp add: missing_translation_def demo_lookup)
qed

text \<open>
  C7 as stated fails where the key path ends at a value that is not a string:
  without parameters that value is returned as it is, no missing-translation text;
  with parameters the \<open>AttributeError\<close> of the call of \<^verbatim>\<open>format\<close> is not handled.
\<close>

theorem get_non_string_counterexample:
  "get no_lib demo_locales ''RU'' [''ticket''] [] =
     Inr (JObj [(''created'', JStr ''Ticket created''), (''cancelled'', JStr ''Cancelled''),
                (''greeting'', JStr ''{a} {b}'')]) \<and>
   get no_lib demo_locales ''RU'' [''ticket''] [] \<noteq> Inr (JStr ''[Missing translation: ticket]'') \<and>
   get no_lib demo_locales ''RU'' [''ticket''] [(''a'', ''x'')] = Inl AttributeError"
  by (simp add: get_def clashes_def get_try_def py_format_def demo_locales_def ru_bundle_def
      subscript_def)

section \<open>Loading the locales\<close>

text \<open>
  C6, as the code has it. For the two languages the bot loads, a locale file that is
  not found gives the empty mapping for that language and loading goes on: when no
  file fails in another way, the constructor returns the locales, each language with
  the value loaded from its file or, where the file is missing, the empty mapping.
\<close>

theorem load_locales_missing_file:
  assumes "\<And>lang e. lang \<in> set [''RU'', ''UZ''] \<Longrightarrow> fs (locale_file lang) = Inl e \<Longrightarrow>
             e = FileNotFoundError"
  shows "\<exists>locs. load_locales fs = Inr locs \<and>
     (\<forall>lang\<in>set [''RU'', ''UZ''].
        locs lang = Some (case fs (locale_file lang) of Inl e \<Rightarrow> JObj [] | Inr j \<Rightarrow> j))"
proof -
  have ru: "fs (locale_file ''RU'') = Inl e \<Longrightarrow> e = FileNotFoundError" for e
    using assms [of "''RU''"] by simp
  have uz: "fs (locale_file ''UZ'') = Inl e \<Longrightarrow> e = FileNotFoundError" for e
    using assms [of "''UZ''"] by simp
  show ?thesis
    using ru uz
    by (cases "fs (locale_file ''RU'')"; cases "fs (locale_file ''UZ'')")
       (auto simp: load_locales_def)
qed

theorem load_locales_missing_file_witness:
  "\<exists>locs. load_locales only_ru = Inr locs \<and> locs ''RU'' = Some ru_bundle \<and>
     locs ''UZ'' = Some (JObj [])"
proof -
  have h: "e = FileNotFoundError"
    if "lang \<in> set [''RU'', ''UZ'']" "only_ru (locale_file lang) = Inl e" for lang e
    using that by (auto simp: only_ru_def locale_file_def split: if_splits)
  have "\<exists>locs. load_locales only_ru = Inr locs \<and>
     (\<forall>lang\<in>set [''RU'', ''UZ''].
        locs lang = Some (case only_ru (locale_file lang) of Inl e \<Rightarrow> JObj [] | Inr j \<Rightarrow> j))"
    by (rule load_locales_missing_file) (rule h)
  then obtain locs where l: "load_locales only_ru = Inr locs"
    and v: "\<forall>lang\<in>set [''RU'', ''UZ''].
        locs lang = Some (case only_ru (locale_file lang) of Inl e \<Rightarrow> JObj [] | Inr j \<Rightarrow> j)"
    by blast
  from v have "locs ''RU'' = Some ru_bundle" "locs ''UZ'' = Some (JObj [])"
    by (simp_all add: only_ru_def locale_file_def)
  with l show ?thesis by blast
qed

text \<open>
  C6 as stated fails for a load failure other than a missing file: a
  malformed \<^verbatim>\<open>RU.json\<close> raises out of \<^verbatim>\<open>load_locales\<close>, and no locales are built.
\<close>

theorem load_locales_malformed_counterexample:
  "load_locales broken_ru = Inl JSONDecodeError"
  by (simp add: load_locales_def broken_ru_def locale_file_def)


end
